theory Spec2Isabelle
  imports Main
begin

section \<open>Data model of \<open>packages/aws-cdk/lib/diff.ts\<close>\<close>

text \<open>
  The module reports the difference between a deployed template and a newly synthesized
  stack artifact (\<open>printStackDiff\<close>) and decides whether the security-relevant part of
  that difference needs operator approval (\<open>printSecurityDiff\<close>). The structural diff
  itself, the renderers, the logging functions and the plugin registry live in other
  packages; the model records every call the module makes to them, in order, as a trace
  of \<open>call\<close> values, and returns that trace together with the function's result.
\<close>

subsection \<open>Diff results\<close>

text \<open>
  Modelled from the spec: the class \<open>ResourceDifference\<close> of the package
  \<open>@aws-cdk/cloudformation-diff\<close> is not part of the sources at hand. The filter of
  \<open>printStackDiff\<close> reads two properties of a change record, both of which may be
  undefined (\<open>None\<close>).
\<close>

record resourceDifference =
  oldResourceType :: "string option"
  newResourceType :: "string option"

text \<open>
  Modelled from the spec: the class \<open>TemplateDiff\<close> of the package
  \<open>@aws-cdk/cloudformation-diff\<close> is not part of the sources at hand. \<open>resources\<close> is an
  ordered sequence of nullable change records; the source guards against the sequence
  itself being absent (\<open>diff.resources && ...\<close>), so the field is optional here.
  \<open>otherDifferenceCount\<close> is the number of differences in the other sections of the
  template. The two permission flags are fixed when the diff is computed.
\<close>

record templateDiff =
  resources :: "resourceDifference option list option"
  otherDifferenceCount :: nat
  permissionsAnyChanges :: bool
  permissionsBroadened :: bool

text \<open>
  Modelled from the spec: \<open>differenceCount\<close> and \<open>isEmpty\<close> are read from the diff object
  each time they are used, and \<open>printStackDiff\<close> reads both after it has reassigned
  \<open>diff.resources\<close>; they describe the diff as it stands then. \<open>differenceCount\<close> is the
  total number of differences: the resource change records that are present (an absent
  record is no change) and the differences of the other sections. \<open>isEmpty\<close> holds iff
  there is no difference of any kind.
\<close>

definition differenceCount :: "templateDiff \<Rightarrow> nat" where
  "differenceCount d =
     otherDifferenceCount d
     + (case resources d of
          None \<Rightarrow> 0
        | Some rs \<Rightarrow> length (filter (\<lambda>change. change \<noteq> None) rs))"

definition isEmpty :: "templateDiff \<Rightarrow> bool" where
  "isEmpty d = (differenceCount d = 0)"

subsection \<open>Stack artifacts and their metadata\<close>

datatype artifactMetadataEntryType = LOGICAL_ID | ERROR | WARN | INFO | OTHER string

text \<open>
  A metadata entry as \<open>findMetadataByType\<close> returns it: the construct path it is attached
  to, its kind, and its data. \<open>buildLogicalToPathMap\<close> reads the data as a string
  (\<open>md.data as string\<close>).
\<close>

record metadataEntryResult =
  path :: string
  type :: artifactMetadataEntryType
  data :: string

text \<open>
  The template type \<open>'t\<close> is opaque: the module only hands templates to the diff
  algorithm.
\<close>

record 't cloudFormationStackArtifact =
  template :: 't
  metadata :: "metadataEntryResult list"

text \<open>
  Modelled from the spec: \<open>CloudFormationStackArtifact.findMetadataByType\<close> of the
  package \<open>@aws-cdk/cx-api\<close> is not part of the sources at hand. It scans the artifact's
  metadata, in metadata order, for the entries of one kind.
\<close>

definition findMetadataByType ::
  "'t cloudFormationStackArtifact \<Rightarrow> artifactMetadataEntryType \<Rightarrow> metadataEntryResult list" where
  "findMetadataByType stack ty = filter (\<lambda>md. type md = ty) (metadata stack)"

subsection \<open>Renderers, streams and the call trace\<close>

text \<open>
  A \<open>FormatStream\<close>: the two process streams the module names, or a stream supplied by
  the caller.
\<close>

datatype formatStream = Stderr | Stdout | CallerStream nat

type_synonym logicalPathMap = "string \<rightharpoonup> string"

text \<open>
  A registered \<open>DifferenceFormatterSource\<close>. The formatter it builds is plugin code; the
  model identifies the source by its name and records each use of it in the trace.
\<close>

record differenceFormatterSource =
  name :: string

text \<open>
  The calls the module makes to its collaborators:
  \<^item> \<open>Print\<close>, \<open>Warning\<close>: \<open>print\<close> and \<open>warning\<close> of \<open>./logging\<close>;
  \<^item> \<open>FormatDifferences\<close>, \<open>FormatSecurityChanges\<close>: the built-in renderers
    \<open>cfnDiff.formatDifferences\<close> and \<open>cfnDiff.formatSecurityChanges\<close>;
  \<^item> \<open>SourceFormatDifferences\<close>, \<open>SourceFormatSecurityChanges\<close>:
    \<open>source.getFormatter(stream, diff, map, context)\<close> followed by \<open>formatDifferences()\<close>
    or \<open>formatSecurityChanges()\<close> on the formatter obtained; the context argument is
    absent (\<open>None\<close>) where the source passes three arguments only.
\<close>

datatype call =
    Print string
  | Warning string
  | FormatDifferences formatStream templateDiff logicalPathMap nat
  | FormatSecurityChanges formatStream templateDiff logicalPathMap
  | SourceFormatDifferences differenceFormatterSource formatStream templateDiff
      logicalPathMap "nat option"
  | SourceFormatSecurityChanges differenceFormatterSource formatStream templateDiff
      logicalPathMap "nat option"

text \<open>
  The functions of other packages whose results the module uses: the structural diff
  algorithm \<open>cfnDiff.diffTemplate\<close> and the colouring function \<open>colors.green\<close>. They
  are parameters of the model.
\<close>

record 't externals =
  diffTemplate :: "'t \<Rightarrow> 't \<Rightarrow> templateDiff"
  green :: "string \<Rightarrow> string"

text \<open>A JavaScript error thrown with \<open>new Error(message)\<close>.\<close>

datatype error = Error string

section \<open>The functions of the module\<close>

text \<open>\<open>Array.prototype.forEach\<close>: the callback runs on each element, in order.\<close>

primrec forEach :: "'a list \<Rightarrow> ('a \<Rightarrow> call list) \<Rightarrow> call list" where
  "forEach [] f = []"
| "forEach (x # xs) f = f x @ forEach xs f"

text \<open>
  The assignment \<open>map[key] = value\<close> of a string to a property of a plain object made by
  \<open>{}\<close>. It creates or overwrites the object's own property \<open>key\<close>, except for the key
  \<open>__proto__\<close>: that name is the prototype accessor inherited from \<open>Object.prototype\<close>,
  and assigning a string to it leaves the object as it was. A \<open>logicalPathMap\<close> holds the
  own properties of the object.
\<close>

definition assignProperty :: "logicalPathMap \<Rightarrow> string \<Rightarrow> string \<Rightarrow> logicalPathMap" where
  "assignProperty m key v = (if key = ''__proto__'' then m else m(key \<mapsto> v))"

text \<open>
  \<open>buildLogicalToPathMap\<close>: the loop assigns \<open>map[md.data] = md.path\<close> for each
  \<open>LOGICAL_ID\<close> entry in turn, starting from the empty object.
\<close>

definition buildLogicalToPathMap :: "'t cloudFormationStackArtifact \<Rightarrow> logicalPathMap" where
  "buildLogicalToPathMap stack =
     fold (\<lambda>md m. assignProperty m (data md) (path md))
       (findMetadataByType stack LOGICAL_ID) Map.empty"

text \<open>
  The string enum \<open>RequireApproval\<close>. At run time an approval level is a string, and
  \<open>difRequiresApproval\<close> has a branch for a string that is none of the three members.
\<close>

definition Never :: string where
  "Never = ''never''"

definition AnyChange :: string where
  "AnyChange = ''any-change''"

definition Broadening :: string where
  "Broadening = ''broadening''"

definition difRequiresApproval :: "templateDiff \<Rightarrow> string \<Rightarrow> error + bool" where
  "difRequiresApproval diff requireApproval =
     (if requireApproval = Never then Inr False
      else if requireApproval = AnyChange then Inr (permissionsAnyChanges diff)
      else if requireApproval = Broadening then Inr (permissionsBroadened diff)
      else Inl (Error (''Unrecognized approval level: '' @ requireApproval)))"

text \<open>
  The arrow function that \<open>printStackDiff\<close> passes to \<open>diff.resources.filter\<close>: an absent
  change is kept before any of its properties is read.
\<close>

definition filterCallback :: "resourceDifference option \<Rightarrow> bool" where
  "filterCallback change =
     (case change of
        None \<Rightarrow> True
      | Some c \<Rightarrow>
          if newResourceType c = Some ''AWS::CDK::Metadata'' then False
          else if oldResourceType c = Some ''AWS::CDK::Metadata'' then False
          else True)"

text \<open>
  The first part of \<open>printStackDiff\<close>: the value of its variable \<open>diff\<close> once the
  \<open>AWS::CDK::Metadata\<close> resources have been filtered out of it.
\<close>

definition filteredDiff ::
  "'t externals \<Rightarrow> 't \<Rightarrow> 't cloudFormationStackArtifact \<Rightarrow> bool \<Rightarrow> templateDiff" where
  "filteredDiff ext oldTemplate newTemplate strict =
     (let diff = diffTemplate ext oldTemplate (template newTemplate) in
      case resources diff of
        None \<Rightarrow> diff
      | Some rs \<Rightarrow>
          if \<not> strict then diff\<lparr>resources := Some (filter filterCallback rs)\<rparr> else diff)"

text \<open>
  \<open>printStackDiff\<close>. The second argument is the content of
  \<open>PluginHost.instance.differenceFormatterSources\<close> at the time of the call;
  \<open>stream || process.stderr\<close> is the caller's stream if there is one. The result is the
  trace of calls made and the number returned.
\<close>

definition printStackDiff ::
  "'t externals \<Rightarrow> differenceFormatterSource list \<Rightarrow> 't \<Rightarrow> 't cloudFormationStackArtifact
     \<Rightarrow> bool \<Rightarrow> nat \<Rightarrow> formatStream option \<Rightarrow> call list \<times> nat" where
  "printStackDiff ext differenceFormatterSources oldTemplate newTemplate strict context stream =
     (let diff = filteredDiff ext oldTemplate newTemplate strict;
          out = (case stream of Some s \<Rightarrow> s | None \<Rightarrow> Stderr);
          calls =
            (if \<not> isEmpty diff then
               (if length differenceFormatterSources > 0 then
                  forEach differenceFormatterSources (\<lambda>source.
                    [SourceFormatDifferences source out diff
                       (buildLogicalToPathMap newTemplate) (Some context)])
                else
                  [FormatDifferences out diff (buildLogicalToPathMap newTemplate) context])
             else [Print (green ext ''There were no differences'')])
      in (calls, differenceCount diff))"

text \<open>
  \<open>printSecurityDiff\<close>. An error thrown by \<open>difRequiresApproval\<close> is not caught; it
  leaves the function before any call is made.
\<close>

definition printSecurityDiff ::
  "'t externals \<Rightarrow> differenceFormatterSource list \<Rightarrow> 't \<Rightarrow> 't cloudFormationStackArtifact
     \<Rightarrow> string \<Rightarrow> error + call list \<times> bool" where
  "printSecurityDiff ext differenceFormatterSources oldTemplate newTemplate requireApproval =
     (let diff = diffTemplate ext oldTemplate (template newTemplate) in
      case difRequiresApproval diff requireApproval of
        Inl e \<Rightarrow> Inl e
      | Inr required \<Rightarrow>
          if required then
            Inr ([Warning (''This deployment will make potentially sensitive changes according to your current security approval level (--require-approval '' @ requireApproval @ '').''),
                  Warning (''Please confirm you intend to make the following modifications:'' @ [CHR 0x0A])]
                 @ (if length differenceFormatterSources > 0 then
                      forEach differenceFormatterSources (\<lambda>source.
                        [SourceFormatSecurityChanges source Stdout diff
                           (buildLogicalToPathMap newTemplate) None])
                    else
                      [FormatSecurityChanges Stdout diff (buildLogicalToPathMap newTemplate)]),
                 True)
          else Inr ([], False))"

section \<open>Observing the call trace\<close>



text \<open>A change record that mentions the resource type \<open>AWS::CDK::Metadata\<close>.\<close>

definition mentionsMetadata :: "resourceDifference option \<Rightarrow> bool" where
  "mentionsMetadata change =
     (case change of
        None \<Rightarrow> False
      | Some c \<Rightarrow> oldResourceType c = Some ''AWS::CDK::Metadata''
                 \<or> newResourceType c = Some ''AWS::CDK::Metadata'')"

text \<open>
  The number of change records of a diff that mention \<open>AWS::CDK::Metadata\<close>.
\<close>

definition metadataChangeCount :: "templateDiff \<Rightarrow> nat" where
  "metadataChangeCount d =
     (case resources d of None \<Rightarrow> 0 | Some rs \<Rightarrow> length (filter mentionsMetadata rs))"

section \<open>Example inputs\<close>

text \<open>
  Templates are strings here. The example diff algorithm reports no change between equal
  templates, a single new bookkeeping resource for the template that holds nothing else,
  and otherwise a fixed diff of three records: a new bookkeeping resource, an absent
  record, and a new bucket.
\<close>

definition exampleMetadataChange :: resourceDifference where
  "exampleMetadataChange =
     \<lparr>oldResourceType = None, newResourceType = Some ''AWS::CDK::Metadata''\<rparr>"

definition exampleBucketChange :: resourceDifference where
  "exampleBucketChange =
     \<lparr>oldResourceType = None, newResourceType = Some ''AWS::S3::Bucket''\<rparr>"

definition exampleDiff :: templateDiff where
  "exampleDiff =
     \<lparr>resources = Some [Some exampleMetadataChange, None, Some exampleBucketChange],
      otherDifferenceCount = 0,
      permissionsAnyChanges = True, permissionsBroadened = False\<rparr>"

definition exampleMetadataOnlyDiff :: templateDiff where
  "exampleMetadataOnlyDiff =
     \<lparr>resources = Some [Some exampleMetadataChange],
      otherDifferenceCount = 0,
      permissionsAnyChanges = False, permissionsBroadened = False\<rparr>"

definition exampleEmptyDiff :: templateDiff where
  "exampleEmptyDiff =
     \<lparr>resources = Some [], otherDifferenceCount = 0,
      permissionsAnyChanges = False, permissionsBroadened = False\<rparr>"

definition exampleDiffTemplate :: "string \<Rightarrow> string \<Rightarrow> templateDiff" where
  "exampleDiffTemplate oldTemplate newTemplate =
     (if oldTemplate = newTemplate then exampleEmptyDiff
      else if newTemplate = ''{resource: CDKMetadata}'' then exampleMetadataOnlyDiff
      else exampleDiff)"

definition exampleExternals :: "string externals" where
  "exampleExternals = \<lparr>diffTemplate = exampleDiffTemplate, green = id\<rparr>"

text \<open>
  The stack \<open>C\<close> of the module's test, whose metadata holds an error entry, extended by
  two logical-id entries for the same resource.
\<close>

definition exampleArtifact :: "string cloudFormationStackArtifact" where
  "exampleArtifact =
     \<lparr>template = ''{resource: C}'',
      metadata =
        [\<lparr>path = ''/resource'', type = ERROR, data = ''this is an error''\<rparr>,
         \<lparr>path = ''/C/Old/Resource'', type = LOGICAL_ID, data = ''Bucket83908E77''\<rparr>,
         \<lparr>path = ''/C/Bucket/Resource'', type = LOGICAL_ID, data = ''Bucket83908E77''\<rparr>]\<rparr>"

text \<open>A stack whose template holds the bookkeeping resource only.\<close>

definition exampleMetadataArtifact :: "string cloudFormationStackArtifact" where
  "exampleMetadataArtifact = \<lparr>template = ''{resource: CDKMetadata}'', metadata = []\<rparr>"


definition exampleSources :: "differenceFormatterSource list" where
  "exampleSources = [\<lparr>name = ''cool-test''\<rparr>, \<lparr>name = ''other''\<rparr>]"

section \<open>Auxiliary facts\<close>

lemma forEach_single: "forEach xs (\<lambda>x. [g x]) = map g xs"
  by (induction xs) simp_all

lemma approval_levels_distinct:
  "Never \<noteq> AnyChange" "Never \<noteq> Broadening" "AnyChange \<noteq> Broadening"
  by (simp_all add: Never_def AnyChange_def Broadening_def)

lemma filteredDiff_resources:
  "resources (filteredDiff ext old new strict)
     = (if strict then resources (diffTemplate ext old (template new))
        else map_option (filter filterCallback) (resources (diffTemplate ext old (template new))))"
  by (simp add: filteredDiff_def Let_def split: option.splits)

lemma filteredDiff_strict:
  "filteredDiff ext old new True = diffTemplate ext old (template new)"
  by (simp add: filteredDiff_def Let_def split: option.splits)


lemma filterCallback_iff: "filterCallback c = (\<not> mentionsMetadata c)"
  by (auto simp add: filterCallback_def mentionsMetadata_def split: option.splits)



lemma present_filterCallback:
  "length (filter (\<lambda>change. change \<noteq> None) (filter filterCallback rs))
     + length (filter mentionsMetadata rs)
   = length (filter (\<lambda>change. change \<noteq> None) rs)"
  by (induction rs)
    (auto simp add: filterCallback_iff mentionsMetadata_def split: option.splits)

lemma differenceCount_filteredDiff:
  "differenceCount (filteredDiff ext old new False)
     + metadataChangeCount (diffTemplate ext old (template new))
   = differenceCount (diffTemplate ext old (template new))"
proof (cases "resources (diffTemplate ext old (template new))")
  case None
  then show ?thesis
    by (simp add: filteredDiff_def metadataChangeCount_def)
next
  case (Some rs)
  with present_filterCallback [of rs] show ?thesis
    by (simp add: filteredDiff_def metadataChangeCount_def differenceCount_def)
qed

lemma printStackDiff_calls:
  "fst (printStackDiff ext srcs old new strict ctx stream)
     = (if isEmpty (filteredDiff ext old new strict)
        then [Print (green ext ''There were no differences'')]
        else if srcs = []
        then [FormatDifferences (case stream of Some s \<Rightarrow> s | None \<Rightarrow> Stderr)
                (filteredDiff ext old new strict) (buildLogicalToPathMap new) ctx]
        else map (\<lambda>source. SourceFormatDifferences source
                (case stream of Some s \<Rightarrow> s | None \<Rightarrow> Stderr)
                (filteredDiff ext old new strict) (buildLogicalToPathMap new) (Some ctx)) srcs)"
  by (simp add: printStackDiff_def Let_def forEach_single)

lemma printStackDiff_count:
  "snd (printStackDiff ext srcs old new strict ctx stream)
     = differenceCount (filteredDiff ext old new strict)"
  by (simp add: printStackDiff_def Let_def)





subsection \<open>The example inputs evaluated\<close>

lemma example_filteredDiff:
  "filteredDiff exampleExternals ''{}'' exampleArtifact False
     = exampleDiff\<lparr>resources := Some [None, Some exampleBucketChange]\<rparr>"
  "filteredDiff exampleExternals ''{}'' exampleArtifact True = exampleDiff"
  by (simp_all add: filteredDiff_def exampleExternals_def exampleDiffTemplate_def
        exampleArtifact_def exampleDiff_def filterCallback_def exampleMetadataChange_def
        exampleBucketChange_def)

lemma example_differenceCount:
  "differenceCount exampleDiff = 2"
  "differenceCount (exampleDiff\<lparr>resources := Some [None, Some exampleBucketChange]\<rparr>) = 1"
  by (simp_all add: differenceCount_def exampleDiff_def)

lemma example_metadataOnly:
  "diffTemplate exampleExternals ''{}'' (template exampleMetadataArtifact)
     = exampleMetadataOnlyDiff"
  "filteredDiff exampleExternals ''{}'' exampleMetadataArtifact False
     = exampleMetadataOnlyDiff\<lparr>resources := Some []\<rparr>"
  by (simp_all add: filteredDiff_def exampleExternals_def exampleDiffTemplate_def
        exampleMetadataArtifact_def exampleMetadataOnlyDiff_def filterCallback_def
        exampleMetadataChange_def)

lemma example_equal_templates:
  "filteredDiff exampleExternals ''{resource: C}'' exampleArtifact True = exampleEmptyDiff"
  by (simp add: filteredDiff_strict exampleExternals_def exampleDiffTemplate_def
        exampleArtifact_def)

lemma example_approval:
  "difRequiresApproval (diffTemplate exampleExternals ''{}'' (template exampleArtifact)) AnyChange
     = Inr True"
  "difRequiresApproval (diffTemplate exampleExternals ''{}'' (template exampleArtifact)) Broadening
     = Inr False"
  by (simp_all add: difRequiresApproval_def exampleExternals_def exampleDiffTemplate_def
        exampleArtifact_def exampleDiff_def approval_levels_distinct
        approval_levels_distinct [symmetric])

section \<open>The approval policy\<close>

text \<open>
  Claim C1. The approval policy is a total function of the two permission flags of the
  diff and the approval level: \<open>never\<close> gives false, \<open>any-change\<close> gives
  \<open>permissionsAnyChanges\<close>, \<open>broadening\<close> gives \<open>permissionsBroadened\<close>, whatever the rest
  of the diff is; so under \<open>broadening\<close> a diff that changes permissions without
  broadening them needs no approval.
\<close>

theorem difRequiresApproval_policy:
  "difRequiresApproval diff Never = Inr False
   \<and> difRequiresApproval diff AnyChange = Inr (permissionsAnyChanges diff)
   \<and> difRequiresApproval diff Broadening = Inr (permissionsBroadened diff)
   \<and> difRequiresApproval
        (diff\<lparr>permissionsAnyChanges := True, permissionsBroadened := False\<rparr>) Broadening
      = Inr False
   \<and> difRequiresApproval (diff\<lparr>resources := r, otherDifferenceCount := n\<rparr>) level
      = difRequiresApproval diff level"
  by (simp add: difRequiresApproval_def approval_levels_distinct
        approval_levels_distinct [symmetric])

section \<open>Reporting a stack diff\<close>



text \<open>
  Claim C4. When the diff, as it stands after filtering, is empty, \<open>printStackDiff\<close>
  invokes no renderer: its only call is \<open>print\<close> with the notice that there were no
  differences, and it returns 0.
\<close>

theorem printStackDiff_empty_diff:
  assumes "isEmpty (filteredDiff ext old new strict)"
  shows "printStackDiff ext srcs old new strict ctx stream
           = ([Print (green ext ''There were no differences'')], 0)"
  using assms by (simp add: printStackDiff_def Let_def isEmpty_def)

theorem printStackDiff_empty_diff_witness:
  "\<not> isEmpty (diffTemplate exampleExternals ''{}'' (template exampleMetadataArtifact))
   \<and> isEmpty (filteredDiff exampleExternals ''{}'' exampleMetadataArtifact False)
   \<and> printStackDiff exampleExternals exampleSources ''{}'' exampleMetadataArtifact False 3 None
       = ([Print ''There were no differences''], 0)
   \<and> isEmpty (filteredDiff exampleExternals ''{resource: C}'' exampleArtifact True)
   \<and> printStackDiff exampleExternals exampleSources ''{resource: C}'' exampleArtifact True 3 None
       = ([Print ''There were no differences''], 0)"
proof -
  have n: "\<not> isEmpty (diffTemplate exampleExternals ''{}'' (template exampleMetadataArtifact))"
    by (simp add: example_metadataOnly isEmpty_def differenceCount_def
          exampleMetadataOnlyDiff_def)
  have e1: "isEmpty (filteredDiff exampleExternals ''{}'' exampleMetadataArtifact False)"
    by (simp add: example_metadataOnly isEmpty_def differenceCount_def
          exampleMetadataOnlyDiff_def)
  have e2: "isEmpty (filteredDiff exampleExternals ''{resource: C}'' exampleArtifact True)"
    by (simp add: example_equal_templates isEmpty_def differenceCount_def exampleEmptyDiff_def)
  have g: "green exampleExternals ''There were no differences'' = ''There were no differences''"
    by (simp add: exampleExternals_def)
  from printStackDiff_empty_diff [OF e1, of exampleSources 3 None]
       printStackDiff_empty_diff [OF e2, of exampleSources 3 None] n e1 e2
  show ?thesis by (simp only: g simp_thms)
qed

text \<open>
  Claim C5, as amended. \<open>printStackDiff\<close> returns the \<open>differenceCount\<close> of the diff as it
  stands after filtering. With \<open>strict\<close> that is the count of the diff the algorithm
  produced; without \<open>strict\<close> it is that count less the number of change records that
  mention \<open>AWS::CDK::Metadata\<close>, which are filtered out and not rendered.
\<close>

theorem printStackDiff_returns_rendered_count:
  "snd (printStackDiff ext srcs old new strict ctx stream)
     = differenceCount (filteredDiff ext old new strict)
   \<and> snd (printStackDiff ext srcs old new True ctx stream)
     = differenceCount (diffTemplate ext old (template new))
   \<and> snd (printStackDiff ext srcs old new False ctx stream)
       + metadataChangeCount (diffTemplate ext old (template new))
     = differenceCount (diffTemplate ext old (template new))"
  by (simp add: printStackDiff_count filteredDiff_strict differenceCount_filteredDiff)

text \<open>
  The example diff has two differences, one of them of the bookkeeping resource; the
  non-strict call returns 1.
\<close>

theorem printStackDiff_count_excludes_filtered:
  "differenceCount (diffTemplate exampleExternals ''{}'' (template exampleArtifact)) = 2
   \<and> snd (printStackDiff exampleExternals [] ''{}'' exampleArtifact False 3 None) = 1"
proof -
  have d: "diffTemplate exampleExternals ''{}'' (template exampleArtifact) = exampleDiff"
    by (simp add: exampleExternals_def exampleDiffTemplate_def exampleArtifact_def)
  show ?thesis
    by (simp add: d printStackDiff_count example_filteredDiff example_differenceCount)
qed



text \<open>
  Claim C7. When the diff, as it stands after filtering, is not empty: with no registered source, the trace is one call
  of the built-in renderer; with registered sources, the trace has one
  \<open>formatDifferences\<close> call per source, in registration order, all on the same stream,
  diff, path map and context, and no call of the built-in renderer.
\<close>

theorem printStackDiff_renderer_invocations:
  assumes "\<not> isEmpty (filteredDiff ext old new strict)"
  shows "(srcs = [] \<longrightarrow>
            fst (printStackDiff ext srcs old new strict ctx stream)
              = [FormatDifferences (case stream of Some s \<Rightarrow> s | None \<Rightarrow> Stderr)
                   (filteredDiff ext old new strict) (buildLogicalToPathMap new) ctx])
       \<and> (srcs \<noteq> [] \<longrightarrow>
            length (fst (printStackDiff ext srcs old new strict ctx stream)) = length srcs
            \<and> fst (printStackDiff ext srcs old new strict ctx stream)
              = map (\<lambda>source. SourceFormatDifferences source
                       (case stream of Some s \<Rightarrow> s | None \<Rightarrow> Stderr)
                       (filteredDiff ext old new strict) (buildLogicalToPathMap new) (Some ctx))
                  srcs)"
  using assms by (simp add: printStackDiff_calls)

theorem printStackDiff_renderer_invocations_witness:
  "\<not> isEmpty (filteredDiff exampleExternals ''{}'' exampleArtifact False)
   \<and> fst (printStackDiff exampleExternals [] ''{}'' exampleArtifact False 3
            (Some (CallerStream 0)))
       = [FormatDifferences (CallerStream 0)
            (exampleDiff\<lparr>resources := Some [None, Some exampleBucketChange]\<rparr>)
            (buildLogicalToPathMap exampleArtifact) 3]
   \<and> exampleSources \<noteq> []
   \<and> length (fst (printStackDiff exampleExternals exampleSources ''{}'' exampleArtifact False 3
                   (Some (CallerStream 0)))) = 2
   \<and> fst (printStackDiff exampleExternals exampleSources ''{}'' exampleArtifact False 3
            (Some (CallerStream 0)))
       = [SourceFormatDifferences \<lparr>name = ''cool-test''\<rparr> (CallerStream 0)
            (exampleDiff\<lparr>resources := Some [None, Some exampleBucketChange]\<rparr>)
            (buildLogicalToPathMap exampleArtifact) (Some 3),
          SourceFormatDifferences \<lparr>name = ''other''\<rparr> (CallerStream 0)
            (exampleDiff\<lparr>resources := Some [None, Some exampleBucketChange]\<rparr>)
            (buildLogicalToPathMap exampleArtifact) (Some 3)]"
proof -
  have ne: "\<not> isEmpty (filteredDiff exampleExternals ''{}'' exampleArtifact False)"
    by (simp add: example_filteredDiff isEmpty_def example_differenceCount)
  from printStackDiff_renderer_invocations [OF ne, of "[]" 3 "Some (CallerStream 0)"]
       printStackDiff_renderer_invocations [OF ne, of exampleSources 3 "Some (CallerStream 0)"] ne
  show ?thesis
    by (simp add: example_filteredDiff exampleSources_def)
qed

text \<open>
  Claim C10. The filter keeps every absent change record: the callback answers true for
  an absent record without reading any of its properties, so the absent records of the
  resources are the same before and after filtering, strict or not.
\<close>

theorem filter_keeps_absent_changes:
  "filterCallback None
   \<and> filter (\<lambda>c. c = None) (filter filterCallback rs) = filter (\<lambda>c. c = None) rs
   \<and> map_option (filter (\<lambda>c. c = None)) (resources (filteredDiff ext old new strict))
       = map_option (filter (\<lambda>c. c = None)) (resources (diffTemplate ext old (template new)))"
proof -
  have keep: "filterCallback None"
    by (simp add: filterCallback_def)
  have eq: "(\<lambda>c. filterCallback c \<and> c = None) = (\<lambda>c. c = None)"
    by (auto simp add: keep)
  show ?thesis
    by (cases "resources (diffTemplate ext old (template new))")
      (simp_all add: keep eq filteredDiff_resources)
qed

section \<open>Evaluating the security diff\<close>

text \<open>
  Claim C3. If the policy requires approval, \<open>printSecurityDiff\<close> returns true after two
  warnings, the first naming the approval level, followed by the security rendering of
  every registered source in order, or of the built-in renderer alone when no source is
  registered. If the policy does not require approval, it returns false and makes no
  call at all.
\<close>

theorem printSecurityDiff_approval:
  "(difRequiresApproval (diffTemplate ext old (template new)) level = Inr True \<longrightarrow>
      printSecurityDiff ext srcs old new level =
        Inr ([Warning (''This deployment will make potentially sensitive changes according to your current security approval level (--require-approval '' @ level @ '').''),
              Warning (''Please confirm you intend to make the following modifications:'' @ [CHR 0x0A])]
             @ (if srcs = []
                then [FormatSecurityChanges Stdout (diffTemplate ext old (template new))
                        (buildLogicalToPathMap new)]
                else map (\<lambda>source. SourceFormatSecurityChanges source Stdout
                            (diffTemplate ext old (template new))
                            (buildLogicalToPathMap new) None) srcs),
             True))
   \<and> (difRequiresApproval (diffTemplate ext old (template new)) level = Inr False \<longrightarrow>
        printSecurityDiff ext srcs old new level = Inr ([], False))"
  by (simp add: printSecurityDiff_def Let_def forEach_single)

theorem printSecurityDiff_approval_witness:
  "difRequiresApproval (diffTemplate exampleExternals ''{}'' (template exampleArtifact)) AnyChange
     = Inr True
   \<and> printSecurityDiff exampleExternals exampleSources ''{}'' exampleArtifact AnyChange =
        Inr ([Warning (''This deployment will make potentially sensitive changes according to your current security approval level (--require-approval any-change).''),
              Warning (''Please confirm you intend to make the following modifications:'' @ [CHR 0x0A]),
              SourceFormatSecurityChanges \<lparr>name = ''cool-test''\<rparr> Stdout exampleDiff
                (buildLogicalToPathMap exampleArtifact) None,
              SourceFormatSecurityChanges \<lparr>name = ''other''\<rparr> Stdout exampleDiff
                (buildLogicalToPathMap exampleArtifact) None],
             True)
   \<and> difRequiresApproval (diffTemplate exampleExternals ''{}'' (template exampleArtifact)) Broadening
     = Inr False
   \<and> printSecurityDiff exampleExternals exampleSources ''{}'' exampleArtifact Broadening
     = Inr ([], False)"
proof -
  have d: "diffTemplate exampleExternals ''{}'' (template exampleArtifact) = exampleDiff"
    by (simp add: exampleExternals_def exampleDiffTemplate_def exampleArtifact_def)
  from printSecurityDiff_approval [of exampleExternals "''{}''" exampleArtifact AnyChange exampleSources]
       printSecurityDiff_approval [of exampleExternals "''{}''" exampleArtifact Broadening exampleSources]
  show ?thesis
    by (simp add: example_approval) (simp add: d exampleSources_def AnyChange_def)
qed

text \<open>
  Claim C8. An approval level that is none of \<open>never\<close>, \<open>any-change\<close> and \<open>broadening\<close>
  makes \<open>difRequiresApproval\<close> throw; \<open>printSecurityDiff\<close> does not catch the error, so
  it ends with that error, with no call made and no boolean returned.
\<close>

theorem printSecurityDiff_unknown_level:
  assumes "level \<noteq> Never" and "level \<noteq> AnyChange" and "level \<noteq> Broadening"
  shows "difRequiresApproval diff level
           = Inl (Error (''Unrecognized approval level: '' @ level))
       \<and> printSecurityDiff ext srcs old new level
           = Inl (Error (''Unrecognized approval level: '' @ level))"
  using assms by (simp add: printSecurityDiff_def difRequiresApproval_def)

theorem printSecurityDiff_unknown_level_witness:
  "''always'' \<noteq> Never \<and> ''always'' \<noteq> AnyChange \<and> ''always'' \<noteq> Broadening
   \<and> difRequiresApproval exampleDiff ''always''
       = Inl (Error ''Unrecognized approval level: always'')
   \<and> printSecurityDiff exampleExternals exampleSources ''{}'' exampleArtifact ''always''
       = Inl (Error ''Unrecognized approval level: always'')"
proof -
  have n: "''always'' \<noteq> Never" "''always'' \<noteq> AnyChange" "''always'' \<noteq> Broadening"
    by (simp_all add: Never_def AnyChange_def Broadening_def)
  from printSecurityDiff_unknown_level [OF n, of exampleDiff exampleExternals exampleSources "''{}''" exampleArtifact] n
  show ?thesis by simp
qed

section \<open>The logical-id to path map\<close>



end
